theory Spec2Isabelle
  imports Main
begin

section \<open>Civic.AI dashboard: classification, formatting and dispatch of civic reports\<close>

text \<open>
  The development embeds the functions of \<^verbatim>\<open>telynxstuff.py\<close> that carry
  logic: \<^verbatim>\<open>validate_telegram_token\<close>, \<^verbatim>\<open>validate_chat_id\<close>,
  \<^verbatim>\<open>extract_civic_info\<close>, \<^verbatim>\<open>format_telegram_message\<close> and
  \<^verbatim>\<open>send_to_telegram\<close>.

  Strings. A Python \<^verbatim>\<open>str\<close> is a sequence of code points. Transcripts, tokens and
  chat identifiers are modelled as \<^typ>\<open>string\<close>, each \<^typ>\<open>char\<close> read as the code
  point of the same number (0 to 255); on that range the character predicates and case
  mappings below are the ones of Python 3. The outputs of \<^verbatim>\<open>str.title\<close> and the
  Telegram message hold code points beyond that range (three title-case images and the
  glyphs of the template), so they are lists of code points, \<open>ustring\<close>.
\<close>

subsection \<open>Python string primitives\<close>

type_synonym ustring = "nat list"

definition cp :: "string \<Rightarrow> ustring" where
  "cp s = map of_char s"

text \<open>\<^verbatim>\<open>str.isspace\<close> of one character; the class \<^verbatim>\<open>\s\<close> of \<^verbatim>\<open>re\<close> is the same set.\<close>

definition isspace :: "char \<Rightarrow> bool" where
  "isspace c =
     (let n = (of_char c :: nat)
      in (9 \<le> n \<and> n \<le> 13) \<or> (28 \<le> n \<and> n \<le> 32) \<or> n = 133 \<or> n = 160)"

text \<open>The same predicate on every code point, for strings that leave the 8-bit range.\<close>

definition uisspace :: "nat \<Rightarrow> bool" where
  "uisspace n =
     ((9 \<le> n \<and> n \<le> 13) \<or> (28 \<le> n \<and> n \<le> 32) \<or> n = 133 \<or> n = 160 \<or> n = 5760
      \<or> (8192 \<le> n \<and> n \<le> 8202) \<or> n = 8232 \<or> n = 8233 \<or> n = 8239 \<or> n = 8287
      \<or> n = 12288)"

text \<open>\<^verbatim>\<open>\d\<close> of \<^verbatim>\<open>re\<close> (decimal digits) and \<^verbatim>\<open>str.isdigit\<close> of one character
  (which also holds of the superscripts 2, 3 and 1).\<close>

definition re_digit :: "char \<Rightarrow> bool" where
  "re_digit c = (let n = (of_char c :: nat) in 48 \<le> n \<and> n \<le> 57)"

definition isdigit_char :: "char \<Rightarrow> bool" where
  "isdigit_char c =
     (let n = (of_char c :: nat) in (48 \<le> n \<and> n \<le> 57) \<or> n = 178 \<or> n = 179 \<or> n = 185)"

definition ascii_upper :: "char \<Rightarrow> bool" where
  "ascii_upper c = (let n = (of_char c :: nat) in 65 \<le> n \<and> n \<le> 90)"

definition ascii_lower :: "char \<Rightarrow> bool" where
  "ascii_lower c = (let n = (of_char c :: nat) in 97 \<le> n \<and> n \<le> 122)"

text \<open>\<^verbatim>\<open>str.lower\<close>: A-Z and the capitals 0xC0-0xDE (but the sign 0xD7) move up by 32.\<close>

definition lower_char :: "char \<Rightarrow> char" where
  "lower_char c =
     (let n = (of_char c :: nat)
      in if (65 \<le> n \<and> n \<le> 90) \<or> (192 \<le> n \<and> n \<le> 222 \<and> n \<noteq> 215)
         then char_of (n + 32) else c)"

definition lower :: "string \<Rightarrow> string" where
  "lower s = map lower_char s"

text \<open>The characters Python counts as cased, and the title-case image of one character.\<close>

definition is_cased :: "char \<Rightarrow> bool" where
  "is_cased c =
     (let n = (of_char c :: nat)
      in (65 \<le> n \<and> n \<le> 90) \<or> (97 \<le> n \<and> n \<le> 122) \<or> n = 170 \<or> n = 181 \<or> n = 186
         \<or> (192 \<le> n \<and> n \<le> 214) \<or> (216 \<le> n \<and> n \<le> 246) \<or> (248 \<le> n \<and> n \<le> 255))"

definition title_char :: "char \<Rightarrow> ustring" where
  "title_char c =
     (let n = (of_char c :: nat)
      in if (97 \<le> n \<and> n \<le> 122) \<or> (224 \<le> n \<and> n \<le> 254 \<and> n \<noteq> 247) then [n - 32]
         else if n = 181 then [924]
         else if n = 223 then [83, 115]
         else if n = 255 then [376]
         else [n])"

text \<open>\<^verbatim>\<open>str.title\<close>: a character that follows a cased one is lowered, any other is
  title-cased; the flag is whether the previous character was cased.\<close>

fun title_from :: "bool \<Rightarrow> string \<Rightarrow> ustring" where
  "title_from previous_is_cased [] = []"
| "title_from previous_is_cased (c # cs) =
     (if previous_is_cased then [of_char (lower_char c)] else title_char c)
     @ title_from (is_cased c) cs"

definition title :: "string \<Rightarrow> ustring" where
  "title s = title_from False s"

text \<open>\<^verbatim>\<open>str.strip()\<close>: whitespace is dropped at both ends.\<close>

definition strip :: "string \<Rightarrow> string" where
  "strip s = rev (dropWhile isspace (rev (dropWhile isspace s)))"

definition ustrip :: "ustring \<Rightarrow> ustring" where
  "ustrip s = rev (dropWhile uisspace (rev (dropWhile uisspace s)))"

text \<open>\<^verbatim>\<open>k in s\<close> on strings: \<open>k\<close> occurs in \<open>s\<close> as a contiguous run.\<close>

fun starts_with :: "'a list \<Rightarrow> 'a list \<Rightarrow> bool" where
  "starts_with s [] = True"
| "starts_with [] (k # ks) = False"
| "starts_with (c # cs) (k # ks) = (c = k \<and> starts_with cs ks)"

fun contains :: "'a list \<Rightarrow> 'a list \<Rightarrow> bool" where
  "contains [] k = (k = [])"
| "contains (c # cs) k = (starts_with (c # cs) k \<or> contains cs k)"

text \<open>\<^verbatim>\<open>s.replace(old, new)\<close> for a one-character \<open>old\<close>.\<close>

definition replace :: "char \<Rightarrow> string \<Rightarrow> string \<Rightarrow> string" where
  "replace old new s = concat (map (\<lambda>c. if c = old then new else [c]) s)"

text \<open>\<^verbatim>\<open>str(n)\<close> of an integer: decimal digits, a minus sign when negative.\<close>

fun str_nat :: "nat \<Rightarrow> string" where
  "str_nat n = (if n < 10 then [char_of (48 + n)] else str_nat (n div 10) @ [char_of (48 + n mod 10)])"

definition str_int :: "int \<Rightarrow> string" where
  "str_int i = (if i < 0 then CHR ''-'' # str_nat (nat (- i)) else str_nat (nat i))"

subsection \<open>The fragment of \<^verbatim>\<open>re\<close> the program uses\<close>

text \<open>
  The patterns of the program are sequences of literal characters, greedy repetitions
  \<^verbatim>\<open>X+\<close> of a character class, one capturing group around such a repetition, and the
  anchors \<^verbatim>\<open>^\<close> and \<^verbatim>\<open>$\<close>. The matcher backtracks as \<^verbatim>\<open>re\<close> does: a repetition
  takes the longest run first and gives characters back one at a time until the rest of
  the pattern matches. \<^verbatim>\<open>$\<close> (without MULTILINE) holds at the end of the subject and
  before a newline that is its last character. The flag says whether the position is
  the start of the subject; the result is the captured groups and the unread rest.
\<close>

datatype item = Lit char | Many1 "char \<Rightarrow> bool" | Group1 "char \<Rightarrow> bool" | Caret | Dollar

definition first_some :: "'a option list \<Rightarrow> 'a option" where
  "first_some xs = (case filter (\<lambda>x. x \<noteq> None) xs of [] \<Rightarrow> None | x # _ \<Rightarrow> x)"

definition lengths_desc :: "(char \<Rightarrow> bool) \<Rightarrow> string \<Rightarrow> nat list" where
  "lengths_desc p s = rev [1 ..< Suc (length (takeWhile p s))]"

fun rmatch :: "item list \<Rightarrow> bool \<Rightarrow> string \<Rightarrow> (string list \<times> string) option" where
  "rmatch [] at_start s = Some ([], s)"
| "rmatch (Lit c # items) at_start s =
     (case s of [] \<Rightarrow> None | x # xs \<Rightarrow> if x = c then rmatch items False xs else None)"
| "rmatch (Caret # items) at_start s = (if at_start then rmatch items at_start s else None)"
| "rmatch (Dollar # items) at_start s =
     (if s = [] \<or> s = [CHR 0x0A] then rmatch items at_start s else None)"
| "rmatch (Many1 p # items) at_start s =
     first_some (map (\<lambda>n. rmatch items False (drop n s)) (lengths_desc p s))"
| "rmatch (Group1 p # items) at_start s =
     first_some (map (\<lambda>n. map_option (\<lambda>(gs, r). (take n s # gs, r)) (rmatch items False (drop n s)))
                     (lengths_desc p s))"

text \<open>\<^verbatim>\<open>re.match(pattern, s)\<close> tried as a truth value: a match at position 0.\<close>

definition re_match :: "item list \<Rightarrow> string \<Rightarrow> bool" where
  "re_match pattern s = (rmatch pattern True s \<noteq> None)"

text \<open>
  \<^verbatim>\<open>re.findall(pattern, s)\<close> for a pattern with at most one group: the matches from
  left to right, none overlapping; each contributes its group (the whole match when the
  pattern has no group). After an empty match the search moves on by one character.
\<close>

function findall :: "item list \<Rightarrow> bool \<Rightarrow> string \<Rightarrow> string list" where
  "findall pattern at_start s =
     (case rmatch pattern at_start s of
        None \<Rightarrow> (case s of [] \<Rightarrow> [] | _ # t \<Rightarrow> findall pattern False t)
      | Some (gs, r) \<Rightarrow>
          (case gs of [] \<Rightarrow> take (length s - length r) s | g # _ \<Rightarrow> g)
          # (if length r < length s then findall pattern False r
             else (case s of [] \<Rightarrow> [] | _ # t \<Rightarrow> findall pattern False t)))"
  by pat_completeness auto
termination
  by (relation "measure (\<lambda>(pattern, at_start, s). length s)") auto

subsection \<open>The classifier: \<^verbatim>\<open>extract_civic_info\<close>\<close>

text \<open>The result dictionary, with its five keys.\<close>

record CivicReport =
  category :: string
  priority :: string
  location :: ustring
  summary :: string
  full_transcript :: string

text \<open>The keyword tables are dictionaries; iteration follows insertion order, so they are
  association lists in the order of the source.\<close>

definition issue_keywords :: "(string \<times> string list) list" where
  "issue_keywords =
     [(''infrastructure'', [''road'', ''bridge'', ''water'', ''electricity'', ''power'', ''drainage'']),
      (''security'', [''crime'', ''theft'', ''violence'', ''unsafe'', ''robbery'', ''security'']),
      (''health'', [''hospital'', ''clinic'', ''medical'', ''health'', ''disease'', ''sanitation'']),
      (''education'', [''school'', ''teacher'', ''education'', ''student'', ''classroom'']),
      (''waste'', [''garbage'', ''waste'', ''dump'', ''refuse'', ''sanitation'', ''dirty'']),
      (''other'', [])]"

definition priority_keywords :: "(string \<times> string list) list" where
  "priority_keywords =
     [(''urgent'', [''emergency'', ''urgent'', ''immediate'', ''critical'', ''danger'']),
      (''high'', [''serious'', ''important'', ''major'', ''significant'']),
      (''medium'', [''moderate'', ''concern'', ''issue'']),
      (''low'', [''minor'', ''small'', ''slight''])]"

text \<open>\<^verbatim>\<open>any(keyword in transcript_lower for keyword in keywords)\<close>\<close>

definition any_keyword :: "string list \<Rightarrow> string \<Rightarrow> bool" where
  "any_keyword keywords transcript_lower = list_ex (\<lambda>keyword. contains transcript_lower keyword) keywords"

text \<open>The two loops over a keyword table: the label starts at its default, and the first
  entry with a keyword in the lowered transcript sets it and ends the loop.\<close>

fun first_label :: "(string \<times> string list) list \<Rightarrow> string \<Rightarrow> string \<Rightarrow> string" where
  "first_label [] transcript_lower dflt = dflt"
| "first_label ((label, keywords) # rest) transcript_lower dflt =
     (if any_keyword keywords transcript_lower then label
      else first_label rest transcript_lower dflt)"

definition letter_or_space :: "char \<Rightarrow> bool" where
  "letter_or_space c = (ascii_upper c \<or> ascii_lower c \<or> isspace c)"

definition location_pattern :: "string \<Rightarrow> item list" where
  "location_pattern word = map Lit word @ [Many1 isspace, Group1 letter_or_space]"

definition location_patterns :: "item list list" where
  "location_patterns =
     [location_pattern ''in'', location_pattern ''at'', location_pattern ''from'',
      location_pattern ''area'']"

text \<open>The loop over the location patterns: the first pattern with a match gives its
  first match, stripped and title-cased; with none the default stays.\<close>

fun first_location :: "item list list \<Rightarrow> string \<Rightarrow> ustring" where
  "first_location [] transcript = cp ''Location not specified''"
| "first_location (pattern # rest) transcript =
     (case findall pattern True transcript of
        [] \<Rightarrow> first_location rest transcript
      | m # _ \<Rightarrow> title (strip m))"

definition extract_civic_info :: "string \<Rightarrow> CivicReport" where
  "extract_civic_info transcript =
     (let transcript_lower = lower transcript;
          issue_category = first_label issue_keywords transcript_lower ''other'';
          pri = first_label priority_keywords transcript_lower ''medium'';
          loc = first_location location_patterns transcript
      in \<lparr> category = issue_category,
           priority = pri,
           location = loc,
           summary = (if length transcript > 200 then take 200 transcript @ ''...'' else transcript),
           full_transcript = transcript \<rparr>)"

subsection \<open>The formatter: \<^verbatim>\<open>format_telegram_message\<close>\<close>

text \<open>Values of the call metadata dictionary and their \<^verbatim>\<open>str()\<close>: the duration is a
  number and the caller identifier a string, so a value is an integer or a string. The
  dictionary is an association list (a key is looked up at its first entry); as a
  condition it is true when it is neither \<^verbatim>\<open>None\<close> nor empty.\<close>

datatype pyval = PyInt int | PyStr string

fun py_str :: "pyval \<Rightarrow> string" where
  "py_str (PyInt i) = str_int i"
| "py_str (PyStr s) = s"

type_synonym metadata = "(string \<times> pyval) list option"

definition truthy :: "metadata \<Rightarrow> bool" where
  "truthy call_metadata = (case call_metadata of None \<Rightarrow> False | Some d \<Rightarrow> d \<noteq> [])"

text \<open>\<^verbatim>\<open>d.get(key, default)\<close>\<close>

definition dict_get :: "('k \<times> 'v) list \<Rightarrow> 'k \<Rightarrow> 'v \<Rightarrow> 'v" where
  "dict_get d key dflt = (case map_of d key of None \<Rightarrow> dflt | Some v \<Rightarrow> v)"

definition category_emojis :: "(string \<times> ustring) list" where
  "category_emojis =
     [(''infrastructure'', [0x1F3D7, 0xFE0F]),
      (''security'', [0x1F6A8]),
      (''health'', [0x1F3E5]),
      (''education'', [0x1F393]),
      (''waste'', [0x1F5D1, 0xFE0F]),
      (''other'', [0x1F4DD])]"

definition priority_emojis :: "(string \<times> ustring) list" where
  "priority_emojis =
     [(''urgent'', [0x1F534]),
      (''high'', [0x1F7E0]),
      (''medium'', [0x1F7E1]),
      (''low'', [0x1F7E2])]"

text \<open>The two metadata expressions of the template and the report identifier.\<close>

definition duration_text :: "metadata \<Rightarrow> ustring" where
  "duration_text call_metadata =
     (if truthy call_metadata
      then [0x1F4F1] @ cp '' **Call Duration:** ''
           @ cp (py_str (dict_get (the call_metadata) ''duration'' (PyStr ''N/A'')))
           @ cp '' seconds''
      else [])"

definition caller_text :: "metadata \<Rightarrow> ustring" where
  "caller_text call_metadata =
     (if truthy call_metadata
      then [0x1F4DE] @ cp '' **Caller ID:** ''
           @ cp (py_str (dict_get (the call_metadata) ''caller_id'' (PyStr ''N/A'')))
      else [])"

definition report_id :: "string \<Rightarrow> string" where
  "report_id timestamp =
     ''CVC-'' @ replace (CHR 0x20) ''-'' (replace (CHR '':'') [] (replace (CHR ''-'') [] timestamp))"

text \<open>The lines of a template, joined by newlines.\<close>

fun join_lines :: "ustring list \<Rightarrow> ustring" where
  "join_lines [] = []"
| "join_lines [l] = l"
| "join_lines (l # ls) = l @ [10] @ join_lines ls"

text \<open>
  The template is a triple-quoted f-string that opens and closes with a newline, hence
  the empty first and last lines; \<^verbatim>\<open>strip()\<close> is applied to the whole. The timestamp
  is \<^verbatim>\<open>datetime.now().strftime("%Y-%m-%d %H:%M:%S")\<close>, read from the clock: it is an
  argument here.
\<close>

definition format_telegram_message :: "string \<Rightarrow> CivicReport \<Rightarrow> metadata \<Rightarrow> ustring" where
  "format_telegram_message timestamp civic_info call_metadata =
     ustrip (join_lines
       [[],
        [0x1F3DB, 0xFE0F] @ cp '' **CIVIC VOICE REPORT**'',
        [],
        dict_get category_emojis (category civic_info) [0x1F4DD] @ cp '' **Category:** ''
          @ title (category civic_info),
        dict_get priority_emojis (priority civic_info) [0x1F7E1] @ cp '' **Priority:** ''
          @ title (priority civic_info),
        [0x1F4CD] @ cp '' **Location:** '' @ location civic_info,
        [0x1F552] @ cp '' **Received:** '' @ cp timestamp,
        [],
        [0x1F4DE] @ cp '' **Report Summary:**'',
        cp (summary civic_info),
        [],
        duration_text call_metadata,
        caller_text call_metadata,
        [],
        cp ''---'',
        cp ''*Report ID: '' @ cp (report_id timestamp) @ cp ''*'',
        []])"

subsection \<open>Credential validation and the dispatcher: \<^verbatim>\<open>send_to_telegram\<close>\<close>

definition token_body :: "char \<Rightarrow> bool" where
  "token_body c = (ascii_upper c \<or> ascii_lower c \<or> re_digit c \<or> c = CHR ''_'' \<or> c = CHR ''-'')"

text \<open>\<^verbatim>\<open>^\d+:[A-Za-z0-9_-]+$\<close>\<close>

definition token_pattern :: "item list" where
  "token_pattern = [Caret, Many1 re_digit, Lit (CHR '':''), Many1 token_body, Dollar]"

definition validate_telegram_token :: "string \<Rightarrow> bool" where
  "validate_telegram_token token =
     (if token = [] then False else re_match token_pattern token)"

text \<open>\<^verbatim>\<open>str.isdigit()\<close>: at least one character, and each a digit.\<close>

definition isdigit :: "string \<Rightarrow> bool" where
  "isdigit s = (s \<noteq> [] \<and> list_all isdigit_char s)"

definition validate_chat_id :: "string \<Rightarrow> bool" where
  "validate_chat_id chat_id =
     (if chat_id = [] then False else isdigit chat_id \<or> starts_with chat_id ''-'')"

text \<open>
  The request handed to \<^verbatim>\<open>requests.post\<close> and what the call does: it returns a
  response with a status code and a text, or raises \<^verbatim>\<open>requests.exceptions.Timeout\<close>,
  or raises another exception, of which \<^verbatim>\<open>str(e)\<close> is kept. The network is an argument
  of the dispatcher. The world records what the function does beside returning: the
  messages shown with \<^verbatim>\<open>st.error\<close> and the requests sent.
\<close>

record request =
  req_url :: string
  req_chat_id :: string
  req_text :: ustring
  req_parse_mode :: string
  req_timeout :: nat

datatype outcome = Response int string | TimeoutExc | OtherExc string

record world =
  st_errors :: "string list"
  posted :: "request list"

definition st_error :: "string \<Rightarrow> world \<Rightarrow> world" where
  "st_error msg w = w\<lparr>st_errors := st_errors w @ [msg]\<rparr>"

definition send_to_telegram ::
  "(request \<Rightarrow> outcome) \<Rightarrow> ustring \<Rightarrow> string \<Rightarrow> string \<Rightarrow> world \<Rightarrow> bool \<times> world" where
  "send_to_telegram requests_post message token chat_id w =
     (if \<not> validate_telegram_token token
      then (False, st_error ''Invalid Telegram bot token format'' w)
      else if \<not> validate_chat_id chat_id
      then (False, st_error ''Invalid Telegram chat ID format'' w)
      else
        let telegram_url = ''https://api.telegram.org/bot'' @ token @ ''/sendMessage'';
            payload = \<lparr> req_url = telegram_url, req_chat_id = chat_id, req_text = message,
                        req_parse_mode = ''Markdown'', req_timeout = 10 \<rparr>;
            w1 = w\<lparr>posted := posted w @ [payload]\<rparr>
        in (case requests_post payload of
              Response status_code body \<Rightarrow>
                if status_code = 200 then (True, w1)
                else (False, st_error (''Telegram API Error: '' @ str_int status_code @ '' - '' @ body) w1)
            | TimeoutExc \<Rightarrow> (False, st_error ''Request timed out. Please try again.'' w1)
            | OtherExc e \<Rightarrow> (False, st_error (''Telegram Error: '' @ e) w1)))"

subsection \<open>Vocabulary of the properties\<close>

text \<open>Entry \<open>i\<close> of a keyword table has a keyword in the lowered transcript.\<close>

definition hit :: "(string \<times> string list) list \<Rightarrow> nat \<Rightarrow> string \<Rightarrow> bool" where
  "hit table i transcript = any_keyword (snd (table ! i)) (lower transcript)"

text \<open>\<^verbatim>\<open>s.endswith(k)\<close>, and the last line of a message as the properties state it: the
  tag, then the timestamp without its hyphens and colons and with a hyphen for each
  space, between the asterisks of the template.\<close>

definition ends_with :: "'a list \<Rightarrow> 'a list \<Rightarrow> bool" where
  "ends_with s k = starts_with (rev s) (rev k)"

definition report_line :: "string \<Rightarrow> ustring" where
  "report_line timestamp =
     cp (''*Report ID: CVC-''
         @ concat (map (\<lambda>c. if c = CHR ''-'' \<or> c = CHR '':'' then []
                              else if c = CHR 0x20 then ''-'' else [c]) timestamp)
         @ ''*'')"

text \<open>A report for the examples.\<close>

definition garbage_report :: CivicReport where
  "garbage_report =
     \<lparr> category = ''waste'', priority = ''low'', location = cp ''Kaduna'',
       summary = ''Garbage dump'', full_transcript = ''Garbage dump'' \<rparr>"

text \<open>A network that gives the same outcome to every request, a world in which nothing
  has happened yet, and the request the dispatcher builds.\<close>

definition answering :: "outcome \<Rightarrow> request \<Rightarrow> outcome" where
  "answering out r = out"

definition quiet_world :: world where
  "quiet_world = \<lparr> st_errors = [], posted = [] \<rparr>"

definition telegram_request :: "ustring \<Rightarrow> string \<Rightarrow> string \<Rightarrow> request" where
  "telegram_request message token chat_id =
     \<lparr> req_url = ''https://api.telegram.org/bot'' @ token @ ''/sendMessage'',
       req_chat_id = chat_id, req_text = message, req_parse_mode = ''Markdown'',
       req_timeout = 10 \<rparr>"

section \<open>Properties of the keyword loops\<close>

lemma first_label_first_hit:
  "i < length table \<Longrightarrow> any_keyword (snd (table ! i)) low
   \<Longrightarrow> (\<And>k. k < i \<Longrightarrow> \<not> any_keyword (snd (table ! k)) low)
   \<Longrightarrow> first_label table low d = fst (table ! i)"
proof (induction table arbitrary: i)
  case Nil
  then show ?case by simp
next
  case (Cons e table)
  obtain lbl kws where e: "e = (lbl, kws)" by (cases e)
  show ?case
  proof (cases i)
    case 0
    with Cons.prems e show ?thesis by simp
  next
    case (Suc m)
    have miss: "\<not> any_keyword kws low"
      using Cons.prems(3) [of 0] Suc e by simp
    have "first_label table low d = fst (table ! m)"
    proof (rule Cons.IH)
      show "m < length table" using Cons.prems(1) Suc by simp
      show "any_keyword (snd (table ! m)) low" using Cons.prems(2) Suc by simp
      fix k assume "k < m"
      then show "\<not> any_keyword (snd (table ! k)) low"
        using Cons.prems(3) [of "Suc k"] Suc by simp
    qed
    with miss e Suc show ?thesis by simp
  qed
qed

lemma first_label_no_hit:
  "(\<And>k. k < length table \<Longrightarrow> \<not> any_keyword (snd (table ! k)) low)
   \<Longrightarrow> first_label table low d = d"
proof (induction table)
  case Nil
  then show ?case by simp
next
  case (Cons e table)
  obtain lbl kws where e: "e = (lbl, kws)" by (cases e)
  have miss: "\<not> any_keyword kws low"
    using Cons.prems [of 0] e by simp
  have "first_label table low d = d"
  proof (rule Cons.IH)
    fix k assume "k < length table"
    then show "\<not> any_keyword (snd (table ! k)) low"
      using Cons.prems [of "Suc k"] by simp
  qed
  with miss e show ?case by simp
qed

lemma first_label_at_or_before:
  "i < length table \<Longrightarrow> any_keyword (snd (table ! i)) low
   \<Longrightarrow> \<exists>k\<le>i. first_label table low d = fst (table ! k)"
proof (induction table arbitrary: i)
  case Nil
  then show ?case by simp
next
  case (Cons e table)
  obtain lbl kws where e: "e = (lbl, kws)" by (cases e)
  show ?case
  proof (cases "any_keyword kws low")
    case True
    with e show ?thesis by (intro exI [of _ 0]) simp
  next
    case False
    with Cons.prems e obtain m where m: "i = Suc m" by (cases i) auto
    with Cons.prems have "\<exists>k\<le>m. first_label table low d = fst (table ! k)"
      by (intro Cons.IH) simp_all
    then obtain k where "k \<le> m" "first_label table low d = fst (table ! k)" by blast
    with False e m show ?thesis by (intro exI [of _ "Suc k"]) simp
  qed
qed

lemma first_label_not_later:
  assumes "distinct (map fst table)" "i < j" "j < length table"
    "any_keyword (snd (table ! i)) low"
  shows "first_label table low d \<noteq> fst (table ! j)"
proof -
  from assms obtain k where k: "k \<le> i" "first_label table low d = fst (table ! k)"
    using first_label_at_or_before [of i table low d] by auto
  have kj: "k < length table" "k \<noteq> j" using assms k by simp_all
  have "map fst table ! k \<noteq> map fst table ! j"
    using assms(1,3) kj by (simp only: nth_eq_iff_index_eq length_map not_False_eq_True)
  then have "fst (table ! k) \<noteq> fst (table ! j)"
    using assms(3) kj by simp
  with assms k show ?thesis by simp
qed


section \<open>The classifier\<close>

text \<open>
  C1. The categories are tried in the order infrastructure, security, health, education,
  waste. When the lowered transcript has a keyword of two of them, the result is the
  earlier one or one before it, never the later one; the first category with a keyword
  is the result; with no keyword in any of the five the result is \<open>other\<close>.
\<close>

theorem category_first_match_wins:
  "map fst issue_keywords =
     [''infrastructure'', ''security'', ''health'', ''education'', ''waste'', ''other'']
   \<and> (\<forall>i j. i < j \<and> j < 5 \<and> hit issue_keywords i transcript \<and> hit issue_keywords j transcript
        \<longrightarrow> (\<exists>k\<le>i. category (extract_civic_info transcript) = fst (issue_keywords ! k))
            \<and> category (extract_civic_info transcript) \<noteq> fst (issue_keywords ! j))
   \<and> (\<forall>i. i < 5 \<and> hit issue_keywords i transcript \<and> (\<forall>k<i. \<not> hit issue_keywords k transcript)
        \<longrightarrow> category (extract_civic_info transcript) = fst (issue_keywords ! i))
   \<and> ((\<forall>i<5. \<not> hit issue_keywords i transcript)
        \<longrightarrow> category (extract_civic_info transcript) = ''other'')"
proof -
  have cat: "category (extract_civic_info transcript)
      = first_label issue_keywords (lower transcript) ''other''"
    by (simp add: extract_civic_info_def Let_def)
  have len: "length issue_keywords = 6" by (simp add: issue_keywords_def)
  have labels: "map fst issue_keywords =
     [''infrastructure'', ''security'', ''health'', ''education'', ''waste'', ''other'']"
    by (simp add: issue_keywords_def)
  have dist: "distinct (map fst issue_keywords)" unfolding labels by simp
  have last: "\<not> hit issue_keywords 5 transcript"
    by (simp add: hit_def issue_keywords_def any_keyword_def)
  have two: "(\<exists>k\<le>i. category (extract_civic_info transcript) = fst (issue_keywords ! k))
            \<and> category (extract_civic_info transcript) \<noteq> fst (issue_keywords ! j)"
    if "i < j" "j < 5" "hit issue_keywords i transcript" for i j
    using that len dist first_label_at_or_before [of i issue_keywords "lower transcript" "''other''"]
      first_label_not_later [of issue_keywords i j "lower transcript" "''other''"]
    by (simp add: cat hit_def)
  have first: "category (extract_civic_info transcript) = fst (issue_keywords ! i)"
    if "i < 5" "hit issue_keywords i transcript" "\<forall>k<i. \<not> hit issue_keywords k transcript" for i
    using that len first_label_first_hit [of i issue_keywords "lower transcript" "''other''"]
    by (simp add: cat hit_def)
  have none: "category (extract_civic_info transcript) = ''other''"
    if h: "\<forall>i<5. \<not> hit issue_keywords i transcript"
  proof -
    have "\<not> any_keyword (snd (issue_keywords ! k)) (lower transcript)" if "k < length issue_keywords" for k
    proof (cases "k < 5")
      case True
      with h show ?thesis by (simp add: hit_def)
    next
      case False
      with that len have "k = 5" by simp
      with last show ?thesis by (simp add: hit_def)
    qed
    then show ?thesis
      using first_label_no_hit [of issue_keywords "lower transcript" "''other''"] by (simp add: cat)
  qed
  from labels two first none show ?thesis by blast
qed

theorem category_first_match_wins_witness:
  "hit issue_keywords 2 ''Poor SANITATION near the school''
   \<and> hit issue_keywords 3 ''Poor SANITATION near the school''
   \<and> hit issue_keywords 4 ''Poor SANITATION near the school''
   \<and> category (extract_civic_info ''Poor SANITATION near the school'') = ''health''
   \<and> category (extract_civic_info ''Poor SANITATION near the school'') \<noteq> ''waste''
   \<and> category (extract_civic_info ''pothole'') = ''other''"
proof -
  let ?t = "''Poor SANITATION near the school''"
  have h2: "hit issue_keywords 2 ?t" by code_simp
  have h3: "hit issue_keywords 3 ?t" by code_simp
  have h4: "hit issue_keywords 4 ?t" by code_simp
  have n0: "\<not> hit issue_keywords 0 ?t" by code_simp
  have n1: "\<not> hit issue_keywords 1 ?t" by code_simp
  have before: "\<forall>k<2. \<not> hit issue_keywords k ?t"
    using n0 n1 by (auto simp: less_2_cases_iff)
  note inst = category_first_match_wins [of ?t]
  have "2 < (5::nat) \<and> hit issue_keywords 2 ?t \<and> (\<forall>k<2. \<not> hit issue_keywords k ?t)
      \<longrightarrow> category (extract_civic_info ?t) = fst (issue_keywords ! 2)"
    using inst by blast
  then have "category (extract_civic_info ?t) = fst (issue_keywords ! 2)"
    using h2 before by simp
  moreover have "(2::nat) < 4 \<and> 4 < (5::nat) \<and> hit issue_keywords 2 ?t \<and> hit issue_keywords 4 ?t
      \<longrightarrow> category (extract_civic_info ?t) \<noteq> fst (issue_keywords ! 4)"
    using inst by blast
  then have "category (extract_civic_info ?t) \<noteq> fst (issue_keywords ! 4)"
    using h2 h4 by simp
  moreover have "category (extract_civic_info ''pothole'') = ''other''"
  proof -
    have m0: "\<not> hit issue_keywords 0 ''pothole''" by code_simp
    have m1: "\<not> hit issue_keywords 1 ''pothole''" by code_simp
    have m2: "\<not> hit issue_keywords 2 ''pothole''" by code_simp
    have m3: "\<not> hit issue_keywords 3 ''pothole''" by code_simp
    have m4: "\<not> hit issue_keywords 4 ''pothole''" by code_simp
    have "\<forall>i<5. \<not> hit issue_keywords i ''pothole''"
    proof (intro allI impI)
      fix i :: nat assume "i < 5"
      then have "i = 0 \<or> i = 1 \<or> i = 2 \<or> i = 3 \<or> i = 4" by arith
      with m0 m1 m2 m3 m4 show "\<not> hit issue_keywords i ''pothole''" by auto
    qed
    then show ?thesis
      using category_first_match_wins [of "''pothole''"] by blast
  qed
  ultimately show ?thesis using h2 h3 h4 by (simp add: issue_keywords_def)
qed


text \<open>
  C2. The transcript of the round-trip scenario is classified as infrastructure and
  urgent, its location is \<open>Malali Area\<close> and its summary is the transcript itself.
\<close>

theorem classify_malali:
  "extract_civic_info ''Emergency! Major water pipe burst in Malali area, urgent attention needed'' =
     \<lparr> category = ''infrastructure'', priority = ''urgent'', location = cp ''Malali Area'',
       summary = ''Emergency! Major water pipe burst in Malali area, urgent attention needed'',
       full_transcript = ''Emergency! Major water pipe burst in Malali area, urgent attention needed'' \<rparr>
   \<and> findall (location_pattern ''in'') True
         ''Emergency! Major water pipe burst in Malali area, urgent attention needed'' = [''Malali area'']
   \<and> title (strip ''Malali area'') = cp ''Malali Area''"
  by code_simp


text \<open>
  C3. A transcript of more than 200 characters gets a summary of length 203: its first 200
  characters and three dots. A transcript of at most 200 characters is its own summary.
\<close>

theorem summary_truncation:
  "(length transcript > 200 \<longrightarrow>
      summary (extract_civic_info transcript) = take 200 transcript @ ''...''
      \<and> length (summary (extract_civic_info transcript)) = 203
      \<and> take 200 (summary (extract_civic_info transcript)) = take 200 transcript)
   \<and> (length transcript \<le> 200 \<longrightarrow> summary (extract_civic_info transcript) = transcript)"
  by (simp add: extract_civic_info_def Let_def)

theorem summary_truncation_witness:
  "length (replicate 201 (CHR ''a'')) > 200
   \<and> length (summary (extract_civic_info (replicate 201 (CHR ''a'')))) = 203
   \<and> length ''pothole'' \<le> 200
   \<and> summary (extract_civic_info ''pothole'') = ''pothole''"
  using summary_truncation [of "replicate 201 (CHR ''a'')"] summary_truncation [of "''pothole''"]
  by simp


text \<open>
  C9. The empty transcript is classified as \<open>other\<close> and \<open>medium\<close>, with the location
  \<open>Location not specified\<close> and the empty summary.
\<close>

theorem classify_empty:
  "extract_civic_info [] =
     \<lparr> category = ''other'', priority = ''medium'', location = cp ''Location not specified'',
       summary = [], full_transcript = [] \<rparr>"
  by code_simp


text \<open>
  C8. The priorities are tried in the order urgent, high, medium, low. The first one with
  a keyword in the lowered transcript is the result, a later one with a keyword never
  is; with no priority keyword at all the result is \<open>medium\<close>.
\<close>

theorem priority_first_match_wins:
  "map fst priority_keywords = [''urgent'', ''high'', ''medium'', ''low'']
   \<and> (\<forall>i j. i < j \<and> j < 4 \<and> hit priority_keywords i transcript \<and> hit priority_keywords j transcript
        \<longrightarrow> (\<exists>k\<le>i. priority (extract_civic_info transcript) = fst (priority_keywords ! k))
            \<and> priority (extract_civic_info transcript) \<noteq> fst (priority_keywords ! j))
   \<and> (\<forall>i. i < 4 \<and> hit priority_keywords i transcript \<and> (\<forall>k<i. \<not> hit priority_keywords k transcript)
        \<longrightarrow> priority (extract_civic_info transcript) = fst (priority_keywords ! i))
   \<and> ((\<forall>i<4. \<not> hit priority_keywords i transcript)
        \<longrightarrow> priority (extract_civic_info transcript) = ''medium'')"
proof -
  have pri: "priority (extract_civic_info transcript)
      = first_label priority_keywords (lower transcript) ''medium''"
    by (simp add: extract_civic_info_def Let_def)
  have len: "length priority_keywords = 4" by (simp add: priority_keywords_def)
  have labels: "map fst priority_keywords = [''urgent'', ''high'', ''medium'', ''low'']"
    by (simp add: priority_keywords_def)
  have dist: "distinct (map fst priority_keywords)" unfolding labels by simp
  have two: "(\<exists>k\<le>i. priority (extract_civic_info transcript) = fst (priority_keywords ! k))
            \<and> priority (extract_civic_info transcript) \<noteq> fst (priority_keywords ! j)"
    if "i < j" "j < 4" "hit priority_keywords i transcript" for i j
    using that len dist
      first_label_at_or_before [of i priority_keywords "lower transcript" "''medium''"]
      first_label_not_later [of priority_keywords i j "lower transcript" "''medium''"]
    by (simp add: pri hit_def)
  have first: "priority (extract_civic_info transcript) = fst (priority_keywords ! i)"
    if "i < 4" "hit priority_keywords i transcript" "\<forall>k<i. \<not> hit priority_keywords k transcript" for i
    using that len first_label_first_hit [of i priority_keywords "lower transcript" "''medium''"]
    by (simp add: pri hit_def)
  have none: "priority (extract_civic_info transcript) = ''medium''"
    if "\<forall>i<4. \<not> hit priority_keywords i transcript"
    using that len first_label_no_hit [of priority_keywords "lower transcript" "''medium''"]
    by (simp add: pri hit_def)
  from labels two first none show ?thesis by blast
qed

theorem priority_first_match_wins_witness:
  "hit priority_keywords 1 ''A MINOR but serious pothole''
   \<and> hit priority_keywords 3 ''A MINOR but serious pothole''
   \<and> priority (extract_civic_info ''A MINOR but serious pothole'') = ''high''
   \<and> priority (extract_civic_info ''A MINOR but serious pothole'') \<noteq> ''low''
   \<and> priority (extract_civic_info ''pothole'') = ''medium''"
proof -
  let ?t = "''A MINOR but serious pothole''"
  have h1: "hit priority_keywords 1 ?t" by code_simp
  have h3: "hit priority_keywords 3 ?t" by code_simp
  have n0: "\<not> hit priority_keywords 0 ?t" by code_simp
  have before: "\<forall>k<1. \<not> hit priority_keywords k ?t"
    using n0 by simp
  note inst = priority_first_match_wins [of ?t]
  have "1 < (4::nat) \<and> hit priority_keywords 1 ?t \<and> (\<forall>k<1. \<not> hit priority_keywords k ?t)
      \<longrightarrow> priority (extract_civic_info ?t) = fst (priority_keywords ! 1)"
    using inst by blast
  then have a: "priority (extract_civic_info ?t) = fst (priority_keywords ! 1)"
    using h1 before by simp
  have "(1::nat) < 3 \<and> 3 < (4::nat) \<and> hit priority_keywords 1 ?t \<and> hit priority_keywords 3 ?t
      \<longrightarrow> priority (extract_civic_info ?t) \<noteq> fst (priority_keywords ! 3)"
    using inst by blast
  then have b: "priority (extract_civic_info ?t) \<noteq> fst (priority_keywords ! 3)"
    using h1 h3 by simp
  have m0: "\<not> hit priority_keywords 0 ''pothole''" by code_simp
  have m1: "\<not> hit priority_keywords 1 ''pothole''" by code_simp
  have m2: "\<not> hit priority_keywords 2 ''pothole''" by code_simp
  have m3: "\<not> hit priority_keywords 3 ''pothole''" by code_simp
  have "\<forall>i<4. \<not> hit priority_keywords i ''pothole''"
  proof (intro allI impI)
    fix i :: nat assume "i < 4"
    then have "i = 0 \<or> i = 1 \<or> i = 2 \<or> i = 3" by arith
    with m0 m1 m2 m3 show "\<not> hit priority_keywords i ''pothole''" by auto
  qed
  then have c: "priority (extract_civic_info ''pothole'') = ''medium''"
    using priority_first_match_wins [of "''pothole''"] by blast
  from a b c h1 h3 show ?thesis by (simp add: priority_keywords_def)
qed


section \<open>The formatter\<close>

lemma starts_with_append: "starts_with (k @ r) k"
  by (induction k) simp_all

lemma ends_with_append: "ends_with (a @ b) b"
  by (simp add: ends_with_def starts_with_append)

lemma ustrip_frame:
  assumes "\<not> uisspace a" "\<not> uisspace b" "list_all uisspace pre" "list_all uisspace post"
  shows "ustrip (pre @ a # mid @ b # post) = a # mid @ [b]"
proof -
  have 1: "dropWhile uisspace (pre @ a # mid @ b # post) = a # mid @ b # post"
    using assms(1,3) by (simp add: dropWhile_append3 list_all_iff)
  have 2: "rev (a # mid @ b # post) = rev post @ b # rev mid @ [a]" by simp
  have 3: "dropWhile uisspace (rev post @ b # rev mid @ [a]) = b # rev mid @ [a]"
    using assms(2,4) by (simp add: dropWhile_append3 list_all_iff)
  show ?thesis unfolding ustrip_def 1 2 3 by simp
qed

lemma replace_pass:
  "replace (CHR 0x20) ''-'' (replace (CHR '':'') [] (replace (CHR ''-'') [] s))
   = concat (map (\<lambda>c. if c = CHR ''-'' \<or> c = CHR '':'' then []
                              else if c = CHR 0x20 then ''-'' else [c]) s)"
  by (induction s) (simp_all add: replace_def)

lemma format_shape:
  "format_telegram_message timestamp civic_info call_metadata =
     [0x1F3DB, 0xFE0F] @ cp '' **CIVIC VOICE REPORT**'' @ [10, 10]
     @ dict_get category_emojis (category civic_info) [0x1F4DD] @ cp '' **Category:** ''
     @ title (category civic_info) @ [10]
     @ dict_get priority_emojis (priority civic_info) [0x1F7E1] @ cp '' **Priority:** ''
     @ title (priority civic_info) @ [10]
     @ [0x1F4CD] @ cp '' **Location:** '' @ location civic_info @ [10]
     @ [0x1F552] @ cp '' **Received:** '' @ cp timestamp @ [10, 10]
     @ [0x1F4DE] @ cp '' **Report Summary:**'' @ [10]
     @ cp (summary civic_info) @ [10, 10]
     @ duration_text call_metadata @ [10]
     @ caller_text call_metadata @ [10, 10]
     @ cp ''---'' @ [10]
     @ cp ''*Report ID: '' @ cp (report_id timestamp) @ cp ''*''"
proof -
  let ?mid = "[0xFE0F] @ cp '' **CIVIC VOICE REPORT**'' @ [10, 10]
     @ dict_get category_emojis (category civic_info) [0x1F4DD] @ cp '' **Category:** ''
     @ title (category civic_info) @ [10]
     @ dict_get priority_emojis (priority civic_info) [0x1F7E1] @ cp '' **Priority:** ''
     @ title (priority civic_info) @ [10]
     @ [0x1F4CD] @ cp '' **Location:** '' @ location civic_info @ [10]
     @ [0x1F552] @ cp '' **Received:** '' @ cp timestamp @ [10, 10]
     @ [0x1F4DE] @ cp '' **Report Summary:**'' @ [10]
     @ cp (summary civic_info) @ [10, 10]
     @ duration_text call_metadata @ [10]
     @ caller_text call_metadata @ [10, 10]
     @ cp ''---'' @ [10]
     @ cp ''*Report ID: '' @ cp (report_id timestamp)"
  have "format_telegram_message timestamp civic_info call_metadata
      = ustrip ([10] @ 0x1F3DB # ?mid @ 42 # [10])"
    by (simp add: format_telegram_message_def cp_def)
  also have "\<dots> = 0x1F3DB # ?mid @ [42]"
    by (rule ustrip_frame) (simp_all add: uisspace_def)
  finally show ?thesis by (simp add: cp_def)
qed

lemma report_line_eq:
  "report_line timestamp = cp ''*Report ID: '' @ cp (report_id timestamp) @ cp ''*''"
  by (simp add: report_line_def report_id_def replace_pass cp_def)

lemma contains_here: "contains (k @ b) k"
proof (cases "k @ b")
  case Nil
  then show ?thesis by simp
next
  case (Cons x xs)
  have "starts_with (k @ b) k" by (rule starts_with_append)
  with Cons show ?thesis by simp
qed

lemma contains_mid: "contains (a @ k @ b) k"
proof (induction a)
  case Nil
  show ?case using contains_here [of k b] by simp
next
  case (Cons x a)
  then show ?case by simp
qed

lemma garbage_message:
  "format_telegram_message ''2024-01-02 03:04:05'' garbage_report None =
     [0x1F3DB, 0xFE0F] @ cp '' **CIVIC VOICE REPORT**'' @ [10, 10]
     @ [0x1F5D1, 0xFE0F] @ cp '' **Category:** Waste'' @ [10]
     @ [0x1F7E2] @ cp '' **Priority:** Low'' @ [10]
     @ [0x1F4CD] @ cp '' **Location:** Kaduna'' @ [10]
     @ [0x1F552] @ cp '' **Received:** 2024-01-02 03:04:05'' @ [10, 10]
     @ [0x1F4DE] @ cp '' **Report Summary:**'' @ [10]
     @ cp ''Garbage dump'' @ [10, 10, 10, 10, 10]
     @ cp ''---'' @ [10]
     @ cp ''*Report ID: CVC-20240102-030405*''"
  by (simp add: format_shape garbage_report_def cp_def dict_get_def category_emojis_def
      priority_emojis_def title_def title_char_def lower_char_def is_cased_def report_id_def
      replace_def duration_text_def caller_text_def truthy_def)

text \<open>
  C5, as the code has it. The message holds the duration expression and the caller
  expression as two consecutive lines. When the metadata is a dictionary with at least
  one key, each line is rendered, with \<open>N/A\<close> for a key that is missing. Both lines are
  empty exactly when the metadata is \<^verbatim>\<open>None\<close> or the empty dictionary.
\<close>

theorem metadata_lines:
  "contains (format_telegram_message timestamp civic_info call_metadata)
     ([10] @ duration_text call_metadata @ [10] @ caller_text call_metadata @ [10])
   \<and> (\<forall>d. d \<noteq> [] \<longrightarrow>
         duration_text (Some d)
           = [0x1F4F1] @ cp '' **Call Duration:** ''
             @ cp (case map_of d ''duration'' of None \<Rightarrow> ''N/A'' | Some v \<Rightarrow> py_str v)
             @ cp '' seconds''
         \<and> caller_text (Some d)
           = [0x1F4DE] @ cp '' **Caller ID:** ''
             @ cp (case map_of d ''caller_id'' of None \<Rightarrow> ''N/A'' | Some v \<Rightarrow> py_str v))
   \<and> ((duration_text call_metadata = [] \<and> caller_text call_metadata = [])
         = (call_metadata = None \<or> call_metadata = Some []))"
proof (intro conjI)
  let ?head = "[0x1F3DB, 0xFE0F] @ cp '' **CIVIC VOICE REPORT**'' @ [10, 10]
     @ dict_get category_emojis (category civic_info) [0x1F4DD] @ cp '' **Category:** ''
     @ title (category civic_info) @ [10]
     @ dict_get priority_emojis (priority civic_info) [0x1F7E1] @ cp '' **Priority:** ''
     @ title (priority civic_info) @ [10]
     @ [0x1F4CD] @ cp '' **Location:** '' @ location civic_info @ [10]
     @ [0x1F552] @ cp '' **Received:** '' @ cp timestamp @ [10, 10]
     @ [0x1F4DE] @ cp '' **Report Summary:**'' @ [10]
     @ cp (summary civic_info) @ [10]"
  let ?tail = "[10] @ cp ''---'' @ [10] @ cp ''*Report ID: '' @ cp (report_id timestamp) @ cp ''*''"
  have eq: "format_telegram_message timestamp civic_info call_metadata
      = ?head @ ([10] @ duration_text call_metadata @ [10] @ caller_text call_metadata @ [10]) @ ?tail"
    by (simp only: format_shape append_assoc append_Cons append_Nil)
  show "contains (format_telegram_message timestamp civic_info call_metadata)
     ([10] @ duration_text call_metadata @ [10] @ caller_text call_metadata @ [10])"
    unfolding eq by (rule contains_mid)
next
  show "\<forall>d. d \<noteq> [] \<longrightarrow>
         duration_text (Some d)
           = [0x1F4F1] @ cp '' **Call Duration:** ''
             @ cp (case map_of d ''duration'' of None \<Rightarrow> ''N/A'' | Some v \<Rightarrow> py_str v)
             @ cp '' seconds''
         \<and> caller_text (Some d)
           = [0x1F4DE] @ cp '' **Caller ID:** ''
             @ cp (case map_of d ''caller_id'' of None \<Rightarrow> ''N/A'' | Some v \<Rightarrow> py_str v)"
    by (simp add: duration_text_def caller_text_def truthy_def dict_get_def split: option.splits)
next
  show "(duration_text call_metadata = [] \<and> caller_text call_metadata = [])
         = (call_metadata = None \<or> call_metadata = Some [])"
    by (cases call_metadata) (simp_all add: duration_text_def caller_text_def truthy_def)
qed


theorem metadata_lines_witness:
  "contains (format_telegram_message ''2024-01-02 03:04:05'' garbage_report (Some [(''duration'', PyInt 42)]))
     ([10] @ [0x1F4F1] @ cp '' **Call Duration:** 42 seconds'' @ [10]
      @ [0x1F4DE] @ cp '' **Caller ID:** N/A'' @ [10])
   \<and> duration_text None = [] \<and> caller_text None = []
   \<and> duration_text (Some []) = [] \<and> caller_text (Some []) = []"
proof -
  let ?d = "[(''duration'', PyInt 42)]"
  note inst = metadata_lines [of "''2024-01-02 03:04:05''" garbage_report "Some ?d"]
  have ne: "?d \<noteq> []" by simp
  have texts: "duration_text (Some ?d) = [0x1F4F1] @ cp '' **Call Duration:** 42 seconds''
      \<and> caller_text (Some ?d) = [0x1F4DE] @ cp '' **Caller ID:** N/A''"
    using inst [THEN conjunct2, THEN conjunct1, rule_format, OF ne]
    by (simp add: cp_def str_int_def)
  have a: "contains (format_telegram_message ''2024-01-02 03:04:05'' garbage_report (Some ?d))
     ([10] @ [0x1F4F1] @ cp '' **Call Duration:** 42 seconds'' @ [10]
      @ [0x1F4DE] @ cp '' **Caller ID:** N/A'' @ [10])"
    using inst [THEN conjunct1] by (simp only: texts append_assoc)
  have b: "duration_text None = [] \<and> caller_text None = []"
    using metadata_lines [of "''2024-01-02 03:04:05''" garbage_report None, THEN conjunct2, THEN conjunct2]
    by simp
  have c: "duration_text (Some []) = [] \<and> caller_text (Some []) = []"
    using metadata_lines [of "''2024-01-02 03:04:05''" garbage_report "Some []", THEN conjunct2, THEN conjunct2]
    by simp
  from a b c show ?thesis by simp
qed


text \<open>
  C5 as stated fails for a metadata dictionary with no keys: the message is the one for
  absent metadata, and \<open>N/A\<close> does not occur in it.
\<close>

theorem empty_metadata_omits_lines:
  "format_telegram_message ''2024-01-02 03:04:05'' garbage_report (Some [])
     = format_telegram_message ''2024-01-02 03:04:05'' garbage_report None
   \<and> \<not> contains (format_telegram_message ''2024-01-02 03:04:05'' garbage_report (Some [])) (cp ''N/A'')"
proof -
  have same: "format_telegram_message ''2024-01-02 03:04:05'' garbage_report (Some [])
     = format_telegram_message ''2024-01-02 03:04:05'' garbage_report None"
    by (simp add: format_telegram_message_def duration_text_def caller_text_def truthy_def)
  have "\<not> contains (format_telegram_message ''2024-01-02 03:04:05'' garbage_report None) (cp ''N/A'')"
    by (simp add: garbage_message cp_def)
  with same show ?thesis by simp
qed


text \<open>
  C6, as the code has it. The message ends with the report identifier line: the tag
  \<open>CVC-\<close> and the timestamp with hyphens and colons removed and each space replaced by
  a hyphen.
\<close>

theorem report_id_line_last:
  "ends_with (format_telegram_message timestamp civic_info call_metadata)
     (10 # report_line timestamp)"
proof -
  let ?body = "[0x1F3DB, 0xFE0F] @ cp '' **CIVIC VOICE REPORT**'' @ [10, 10]
     @ dict_get category_emojis (category civic_info) [0x1F4DD] @ cp '' **Category:** ''
     @ title (category civic_info) @ [10]
     @ dict_get priority_emojis (priority civic_info) [0x1F7E1] @ cp '' **Priority:** ''
     @ title (priority civic_info) @ [10]
     @ [0x1F4CD] @ cp '' **Location:** '' @ location civic_info @ [10]
     @ [0x1F552] @ cp '' **Received:** '' @ cp timestamp @ [10, 10]
     @ [0x1F4DE] @ cp '' **Report Summary:**'' @ [10]
     @ cp (summary civic_info) @ [10, 10]
     @ duration_text call_metadata @ [10]
     @ caller_text call_metadata @ [10, 10]
     @ cp ''---''"
  have eq: "format_telegram_message timestamp civic_info call_metadata
       = ?body @ (10 # report_line timestamp)"
    by (simp only: format_shape report_line_eq append_assoc append_Cons append_Nil)
  show ?thesis unfolding eq by (rule ends_with_append)
qed


text \<open>
  C6 as stated fails: the space of the timestamp is not removed, a hyphen stands in its
  place.
\<close>

theorem report_id_keeps_hyphen:
  "ends_with (format_telegram_message ''2024-01-02 03:04:05'' garbage_report None)
     (cp ''*Report ID: CVC-20240102-030405*'')
   \<and> \<not> ends_with (format_telegram_message ''2024-01-02 03:04:05'' garbage_report None)
     (cp ''*Report ID: CVC-20240102030405*'')"
  by (simp add: garbage_message ends_with_def cp_def)


section \<open>The dispatcher\<close>

text \<open>The credentials of the examples, and the order of the checks: a credential that
  fails validation ends the call before any request is sent.\<close>

lemma credential_examples:
  "validate_telegram_token ''123:AbC-1_2'' \<and> validate_chat_id ''-100200300''
   \<and> \<not> validate_telegram_token ''abc'' \<and> \<not> validate_chat_id ''abc''"
  by code_simp

lemma invalid_token_no_request:
  "\<not> validate_telegram_token token \<Longrightarrow>
   send_to_telegram requests_post message token chat_id w
     = (False, st_error ''Invalid Telegram bot token format'' w)
   \<and> posted (snd (send_to_telegram requests_post message token chat_id w)) = posted w"
  by (simp add: send_to_telegram_def st_error_def)

lemma invalid_chat_id_no_request:
  "validate_telegram_token token \<Longrightarrow> \<not> validate_chat_id chat_id \<Longrightarrow>
   send_to_telegram requests_post message token chat_id w
     = (False, st_error ''Invalid Telegram chat ID format'' w)
   \<and> posted (snd (send_to_telegram requests_post message token chat_id w)) = posted w"
  by (simp add: send_to_telegram_def st_error_def)

text \<open>What the token check accepts: digits, a colon, a body of letters, digits,
  underscores and hyphens, and then nothing more or one newline.\<close>

lemma first_some_map_iff:
  "first_some (map f ns) \<noteq> None \<longleftrightarrow> (\<exists>n\<in>set ns. f n \<noteq> None)"
  by (induction ns) (auto simp: first_some_def)

lemma set_lengths_desc:
  "set (lengths_desc p s) = {n. 1 \<le> n \<and> n \<le> length (takeWhile p s)}"
  by (auto simp: lengths_desc_def)

lemma take_run:
  assumes "n \<le> length (takeWhile p s)"
  shows "list_all p (take n s)"
proof -
  have "take n s = take n (takeWhile p s)"
    using assms by (metis takeWhile_eq_take take_take min.absorb1)
  then have "set (take n s) \<subseteq> set (takeWhile p s)" by (simp add: set_take_subset)
  then show ?thesis by (auto simp: list_all_iff dest: set_takeWhileD)
qed

lemma run_length:
  assumes "list_all p xs" "rest = [] \<or> \<not> p (hd rest)"
  shows "length (takeWhile p (xs @ rest)) = length xs"
proof -
  have "takeWhile p (xs @ rest) = xs @ takeWhile p rest"
    using assms(1) by (simp add: list_all_iff)
  moreover have "takeWhile p rest = []"
    using assms(2) by (cases rest) auto
  ultimately show ?thesis by simp
qed

lemma rmatch_many1:
  "rmatch (Many1 p # items) b s \<noteq> None \<longleftrightarrow>
     (\<exists>n. 1 \<le> n \<and> n \<le> length (takeWhile p s) \<and> rmatch items False (drop n s) \<noteq> None)"
  unfolding rmatch.simps first_some_map_iff set_lengths_desc by auto

lemma rmatch_lit:
  "rmatch (Lit c # items) b s \<noteq> None \<longleftrightarrow>
     (\<exists>xs. s = c # xs \<and> rmatch items False xs \<noteq> None)"
  by (cases s) auto

lemma rmatch_dollar:
  "rmatch [Dollar] b s \<noteq> None \<longleftrightarrow> (s = [] \<or> s = [CHR 0x0A])"
  by simp

lemma rmatch_body_dollar:
  "rmatch [Many1 token_body, Dollar] b xs \<noteq> None \<longleftrightarrow>
     (\<exists>body tail. xs = body @ tail \<and> body \<noteq> [] \<and> list_all token_body body
        \<and> (tail = [] \<or> tail = [CHR 0x0A]))"
proof
  assume "rmatch [Many1 token_body, Dollar] b xs \<noteq> None"
  then obtain n where n: "1 \<le> n" "n \<le> length (takeWhile token_body xs)"
      "drop n xs = [] \<or> drop n xs = [CHR 0x0A]"
    unfolding rmatch_many1 rmatch_dollar by blast
  have "xs = take n xs @ drop n xs" by simp
  moreover have "take n xs \<noteq> []"
    using n(1,2) by (cases xs) auto
  moreover have "list_all token_body (take n xs)" using n(2) by (rule take_run)
  ultimately show "\<exists>body tail. xs = body @ tail \<and> body \<noteq> [] \<and> list_all token_body body
        \<and> (tail = [] \<or> tail = [CHR 0x0A])"
    using n(3) by blast
next
  assume "\<exists>body tail. xs = body @ tail \<and> body \<noteq> [] \<and> list_all token_body body
        \<and> (tail = [] \<or> tail = [CHR 0x0A])"
  then obtain body tail where bt: "xs = body @ tail" "body \<noteq> []" "list_all token_body body"
      "tail = [] \<or> tail = [CHR 0x0A]"
    by blast
  have nl: "\<not> token_body (CHR 0x0A)"
    by (simp add: token_body_def ascii_upper_def ascii_lower_def re_digit_def)
  have len: "length (takeWhile token_body xs) = length body"
    unfolding bt(1) using bt(3,4) nl by (intro run_length) auto
  have "1 \<le> length body" using bt(2) by (simp add: Suc_le_eq)
  moreover have "length body \<le> length (takeWhile token_body xs)" using len by simp
  moreover have "drop (length body) xs = [] \<or> drop (length body) xs = [CHR 0x0A]"
    using bt(1,4) by auto
  ultimately show "rmatch [Many1 token_body, Dollar] b xs \<noteq> None"
    unfolding rmatch_many1 rmatch_dollar by blast
qed

lemma validate_telegram_token_iff:
  "validate_telegram_token token \<longleftrightarrow>
     (\<exists>ds body tail. token = ds @ [CHR '':''] @ body @ tail
        \<and> ds \<noteq> [] \<and> list_all re_digit ds
        \<and> body \<noteq> [] \<and> list_all token_body body
        \<and> (tail = [] \<or> tail = [CHR 0x0A]))"
proof
  assume "validate_telegram_token token"
  then have "rmatch [Many1 re_digit, Lit (CHR '':''), Many1 token_body, Dollar] True token \<noteq> None"
    by (simp add: validate_telegram_token_def re_match_def token_pattern_def split: if_splits)
  then obtain n where n: "1 \<le> n" "n \<le> length (takeWhile re_digit token)"
      "rmatch [Lit (CHR '':''), Many1 token_body, Dollar] False (drop n token) \<noteq> None"
    unfolding rmatch_many1 by blast
  from n(3) obtain xs where xs: "drop n token = CHR '':'' # xs"
      "rmatch [Many1 token_body, Dollar] False xs \<noteq> None"
    unfolding rmatch_lit by blast
  from xs(2) obtain body tail where bt: "xs = body @ tail" "body \<noteq> []"
      "list_all token_body body" "tail = [] \<or> tail = [CHR 0x0A]"
    unfolding rmatch_body_dollar by blast
  have "token = take n token @ drop n token" by simp
  then have "token = take n token @ [CHR '':''] @ body @ tail"
    using xs(1) bt(1) by simp
  moreover have "take n token \<noteq> []" using n(1,2) by (cases token) auto
  moreover have "list_all re_digit (take n token)" using n(2) by (rule take_run)
  ultimately show "\<exists>ds body tail. token = ds @ [CHR '':''] @ body @ tail
        \<and> ds \<noteq> [] \<and> list_all re_digit ds
        \<and> body \<noteq> [] \<and> list_all token_body body
        \<and> (tail = [] \<or> tail = [CHR 0x0A])"
    using bt(2,3,4) by blast
next
  assume "\<exists>ds body tail. token = ds @ [CHR '':''] @ body @ tail
        \<and> ds \<noteq> [] \<and> list_all re_digit ds
        \<and> body \<noteq> [] \<and> list_all token_body body
        \<and> (tail = [] \<or> tail = [CHR 0x0A])"
  then obtain ds body tail where t: "token = ds @ [CHR '':''] @ body @ tail"
      "ds \<noteq> []" "list_all re_digit ds" "body \<noteq> []" "list_all token_body body"
      "tail = [] \<or> tail = [CHR 0x0A]"
    by blast
  have colon: "\<not> re_digit (CHR '':'')" by (simp add: re_digit_def)
  have len: "length (takeWhile re_digit token) = length ds"
    unfolding t(1) using t(3) colon by (intro run_length) auto
  have n1: "1 \<le> length ds" using t(2) by (simp add: Suc_le_eq)
  have n2: "length ds \<le> length (takeWhile re_digit token)" using len by simp
  have "rmatch [Many1 token_body, Dollar] False (body @ tail) \<noteq> None"
    unfolding rmatch_body_dollar using t(4,5,6) by blast
  moreover have "drop (length ds) token = CHR '':'' # body @ tail"
    unfolding t(1) by simp
  ultimately have "rmatch [Lit (CHR '':''), Many1 token_body, Dollar] False (drop (length ds) token) \<noteq> None"
    unfolding rmatch_lit by blast
  with n1 n2 have "rmatch [Many1 re_digit, Lit (CHR '':''), Many1 token_body, Dollar] True token \<noteq> None"
    unfolding rmatch_many1 by blast
  moreover have "token \<noteq> []" using t(1) by simp
  ultimately show "validate_telegram_token token"
    by (simp add: validate_telegram_token_def re_match_def token_pattern_def)
qed

text \<open>
  C4. The token and destination of the examples validate as stated (above), and both
  checks come before the request. But the token check accepts more than digits, a
  colon and a body of letters, digits, underscores and hyphens: \<^verbatim>\<open>$\<close> also matches before
  a final newline, so such a token followed by a newline validates and a request is sent
  with it.
\<close>

theorem token_accepts_trailing_newline:
  "validate_telegram_token (''1:a'' @ [CHR 0x0A])
   \<and> posted (snd (send_to_telegram (answering TimeoutExc) [] (''1:a'' @ [CHR 0x0A]) ''-100200300'' quiet_world))
     = [\<lparr> req_url = ''https://api.telegram.org/bot1:a'' @ [CHR 0x0A] @ ''/sendMessage'',
          req_chat_id = ''-100200300'', req_text = [], req_parse_mode = ''Markdown'',
          req_timeout = 10 \<rparr>]"
proof -
  have t: "validate_telegram_token (''1:a'' @ [CHR 0x0A])" by code_simp
  have c: "validate_chat_id ''-100200300''" by code_simp
  show ?thesis
    using t c by (simp add: send_to_telegram_def Let_def st_error_def answering_def quiet_world_def)
qed

text \<open>
  C7, as the code has it. The call returns a boolean: \<open>True\<close> exactly when both
  credentials validate and the response has status 200; every failure returns \<open>False\<close>.
  The kind of failure shows only in the one message passed to \<^verbatim>\<open>st.error\<close>.
\<close>

theorem failures_return_False:
  "fst (send_to_telegram requests_post message token chat_id w)
     = (validate_telegram_token token \<and> validate_chat_id chat_id
        \<and> (\<exists>body. requests_post (telegram_request message token chat_id) = Response 200 body))
   \<and> (\<not> validate_telegram_token token \<longrightarrow>
        st_errors (snd (send_to_telegram requests_post message token chat_id w))
          = st_errors w @ [''Invalid Telegram bot token format''])
   \<and> (validate_telegram_token token \<and> \<not> validate_chat_id chat_id \<longrightarrow>
        st_errors (snd (send_to_telegram requests_post message token chat_id w))
          = st_errors w @ [''Invalid Telegram chat ID format''])
   \<and> (validate_telegram_token token \<and> validate_chat_id chat_id \<longrightarrow>
        (\<forall>status_code body.
            requests_post (telegram_request message token chat_id) = Response status_code body
            \<and> status_code \<noteq> 200 \<longrightarrow>
            st_errors (snd (send_to_telegram requests_post message token chat_id w))
              = st_errors w @ [''Telegram API Error: '' @ str_int status_code @ '' - '' @ body])
        \<and> (requests_post (telegram_request message token chat_id) = TimeoutExc \<longrightarrow>
            st_errors (snd (send_to_telegram requests_post message token chat_id w))
              = st_errors w @ [''Request timed out. Please try again.''])
        \<and> (\<forall>e. requests_post (telegram_request message token chat_id) = OtherExc e \<longrightarrow>
            st_errors (snd (send_to_telegram requests_post message token chat_id w))
              = st_errors w @ [''Telegram Error: '' @ e]))"
proof -
  let ?r = "send_to_telegram requests_post message token chat_id w"
  let ?out = "requests_post (telegram_request message token chat_id)"
  have bad_token: "?r = (False, st_error ''Invalid Telegram bot token format'' w)"
    if "\<not> validate_telegram_token token"
    using that by (simp add: send_to_telegram_def)
  have bad_chat: "?r = (False, st_error ''Invalid Telegram chat ID format'' w)"
    if "validate_telegram_token token" "\<not> validate_chat_id chat_id"
    using that by (simp add: send_to_telegram_def)
  have sent: "?r =
      (case ?out of
         Response status_code body \<Rightarrow>
           if status_code = 200 then (True, w\<lparr>posted := posted w @ [telegram_request message token chat_id]\<rparr>)
           else (False, st_error (''Telegram API Error: '' @ str_int status_code @ '' - '' @ body)
                   (w\<lparr>posted := posted w @ [telegram_request message token chat_id]\<rparr>))
       | TimeoutExc \<Rightarrow> (False, st_error ''Request timed out. Please try again.''
                   (w\<lparr>posted := posted w @ [telegram_request message token chat_id]\<rparr>))
       | OtherExc e \<Rightarrow> (False, st_error (''Telegram Error: '' @ e)
                   (w\<lparr>posted := posted w @ [telegram_request message token chat_id]\<rparr>)))"
    if "validate_telegram_token token" "validate_chat_id chat_id"
    using that by (simp add: send_to_telegram_def Let_def telegram_request_def split: outcome.splits)
  have ret: "fst ?r = (validate_telegram_token token \<and> validate_chat_id chat_id
        \<and> (\<exists>body. ?out = Response 200 body))"
  proof (cases "validate_telegram_token token \<and> validate_chat_id chat_id")
    case True
    then show ?thesis by (cases ?out) (simp_all add: sent)
  next
    case False
    then show ?thesis using bad_token bad_chat by (cases "validate_telegram_token token") simp_all
  qed
  have e1: "st_errors (snd ?r) = st_errors w @ [''Invalid Telegram bot token format'']"
    if "\<not> validate_telegram_token token"
    using bad_token [OF that] by (simp add: st_error_def)
  have e2: "st_errors (snd ?r) = st_errors w @ [''Invalid Telegram chat ID format'']"
    if "validate_telegram_token token" "\<not> validate_chat_id chat_id"
    using bad_chat [OF that] by (simp add: st_error_def)
  have e3: "st_errors (snd ?r) = st_errors w @ [''Telegram API Error: '' @ str_int status_code @ '' - '' @ body]"
    if "validate_telegram_token token" "validate_chat_id chat_id"
      "?out = Response status_code body" "status_code \<noteq> 200" for status_code body
    using that by (simp add: sent st_error_def)
  have e4: "st_errors (snd ?r) = st_errors w @ [''Request timed out. Please try again.'']"
    if "validate_telegram_token token" "validate_chat_id chat_id" "?out = TimeoutExc"
    using that by (simp add: sent st_error_def)
  have e5: "st_errors (snd ?r) = st_errors w @ [''Telegram Error: '' @ e]"
    if "validate_telegram_token token" "validate_chat_id chat_id" "?out = OtherExc e" for e
    using that by (simp add: sent st_error_def)
  from ret e1 e2 e3 e4 e5 show ?thesis by blast
qed


theorem failures_return_False_witness:
  "\<not> fst (send_to_telegram (answering (Response 200 ''ok'')) [] ''abc'' ''-100200300'' quiet_world)
   \<and> st_errors (snd (send_to_telegram (answering (Response 200 ''ok'')) [] ''abc'' ''-100200300'' quiet_world))
       = [''Invalid Telegram bot token format'']
   \<and> st_errors (snd (send_to_telegram (answering (Response 200 ''ok'')) [] ''123:AbC-1_2'' ''abc'' quiet_world))
       = [''Invalid Telegram chat ID format'']
   \<and> st_errors (snd (send_to_telegram (answering (Response 500 ''Internal Server Error'')) [] ''123:AbC-1_2'' ''-100200300'' quiet_world))
       = [''Telegram API Error: 500 - Internal Server Error'']
   \<and> st_errors (snd (send_to_telegram (answering TimeoutExc) [] ''123:AbC-1_2'' ''-100200300'' quiet_world))
       = [''Request timed out. Please try again.'']
   \<and> st_errors (snd (send_to_telegram (answering (OtherExc ''connection refused'')) [] ''123:AbC-1_2'' ''-100200300'' quiet_world))
       = [''Telegram Error: connection refused'']"
proof -
  have v: "validate_telegram_token ''123:AbC-1_2''" "validate_chat_id ''-100200300''"
    "\<not> validate_telegram_token ''abc''" "\<not> validate_chat_id ''abc''"
    using credential_examples by simp_all
  have q: "st_errors quiet_world = []" by (simp add: quiet_world_def)
  have a: "\<not> fst (send_to_telegram (answering (Response 200 ''ok'')) [] ''abc'' ''-100200300'' quiet_world)"
    using failures_return_False [of "answering (Response 200 ''ok'')" "[]" "''abc''" "''-100200300''" quiet_world,
        THEN conjunct1] v by simp
  have b: "st_errors (snd (send_to_telegram (answering (Response 200 ''ok'')) [] ''abc'' ''-100200300'' quiet_world))
       = [''Invalid Telegram bot token format'']"
    using failures_return_False [of "answering (Response 200 ''ok'')" "[]" "''abc''" "''-100200300''" quiet_world,
        THEN conjunct2, THEN conjunct1] v q by simp
  have c: "st_errors (snd (send_to_telegram (answering (Response 200 ''ok'')) [] ''123:AbC-1_2'' ''abc'' quiet_world))
       = [''Invalid Telegram chat ID format'']"
    using failures_return_False [of "answering (Response 200 ''ok'')" "[]" "''123:AbC-1_2''" "''abc''" quiet_world,
        THEN conjunct2, THEN conjunct2, THEN conjunct1] v q by simp
  have s500: "str_int 500 = ''500''" by code_simp
  have d: "st_errors (snd (send_to_telegram (answering (Response 500 ''Internal Server Error'')) [] ''123:AbC-1_2'' ''-100200300'' quiet_world))
       = [''Telegram API Error: 500 - Internal Server Error'']"
    using failures_return_False [of "answering (Response 500 ''Internal Server Error'')" "[]" "''123:AbC-1_2''" "''-100200300''" quiet_world,
        THEN conjunct2, THEN conjunct2, THEN conjunct2, rule_format, THEN conjunct1, rule_format,
        of 500 "''Internal Server Error''"] v q s500
    by (simp add: answering_def)
  have e: "st_errors (snd (send_to_telegram (answering TimeoutExc) [] ''123:AbC-1_2'' ''-100200300'' quiet_world))
       = [''Request timed out. Please try again.'']"
    using failures_return_False [of "answering TimeoutExc" "[]" "''123:AbC-1_2''" "''-100200300''" quiet_world,
        THEN conjunct2, THEN conjunct2, THEN conjunct2, rule_format, THEN conjunct2, THEN conjunct1] v q
    by (simp add: answering_def)
  have f: "st_errors (snd (send_to_telegram (answering (OtherExc ''connection refused'')) [] ''123:AbC-1_2'' ''-100200300'' quiet_world))
       = [''Telegram Error: connection refused'']"
    using failures_return_False [of "answering (OtherExc ''connection refused'')" "[]" "''123:AbC-1_2''" "''-100200300''" quiet_world,
        THEN conjunct2, THEN conjunct2, THEN conjunct2, rule_format, THEN conjunct2, THEN conjunct2,
        rule_format, of "''connection refused''"] v q
    by (simp add: answering_def)
  from a b c d e f show ?thesis by simp
qed


text \<open>
  C7 as stated fails: an invalid credential, a rejection by the provider, a timeout and
  another transport failure all come back as the same value.
\<close>

theorem failures_share_one_value:
  "fst (send_to_telegram (answering (Response 200 ''ok'')) [] ''abc'' ''-100200300'' quiet_world)
     = fst (send_to_telegram (answering (Response 500 ''Internal Server Error'')) [] ''123:AbC-1_2'' ''-100200300'' quiet_world)
   \<and> fst (send_to_telegram (answering (Response 500 ''Internal Server Error'')) [] ''123:AbC-1_2'' ''-100200300'' quiet_world)
     = fst (send_to_telegram (answering TimeoutExc) [] ''123:AbC-1_2'' ''-100200300'' quiet_world)
   \<and> fst (send_to_telegram (answering TimeoutExc) [] ''123:AbC-1_2'' ''-100200300'' quiet_world)
     = fst (send_to_telegram (answering (OtherExc ''connection refused'')) [] ''123:AbC-1_2'' ''-100200300'' quiet_world)"
proof -
  have v: "validate_telegram_token ''123:AbC-1_2''" "validate_chat_id ''-100200300''"
    "\<not> validate_telegram_token ''abc''"
    using credential_examples by simp_all
  show ?thesis
    using v by (simp add: send_to_telegram_def Let_def answering_def)
qed

text \<open>
  C10. A chat identifier that begins with a minus sign validates whatever follows, and
  with a valid token the call goes on to send the request.
\<close>

theorem minus_chat_id_accepted:
  "validate_chat_id (CHR ''-'' # rest)
   \<and> (validate_telegram_token token \<longrightarrow>
        posted (snd (send_to_telegram requests_post message token (CHR ''-'' # rest) w))
          = posted w @ [\<lparr> req_url = ''https://api.telegram.org/bot'' @ token @ ''/sendMessage'',
                           req_chat_id = CHR ''-'' # rest, req_text = message,
                           req_parse_mode = ''Markdown'', req_timeout = 10 \<rparr>]
        \<and> send_to_telegram requests_post message token (CHR ''-'' # rest) w
          \<noteq> (False, st_error ''Invalid Telegram chat ID format'' w))"
proof -
  let ?r = "send_to_telegram requests_post message token (CHR ''-'' # rest) w"
  let ?payload = "\<lparr> req_url = ''https://api.telegram.org/bot'' @ token @ ''/sendMessage'',
                           req_chat_id = CHR ''-'' # rest, req_text = message,
                           req_parse_mode = ''Markdown'', req_timeout = 10 \<rparr>"
  have v: "validate_chat_id (CHR ''-'' # rest)"
    by (simp add: validate_chat_id_def)
  have p: "posted (snd ?r) = posted w @ [?payload]" if "validate_telegram_token token"
    using v that by (simp add: send_to_telegram_def Let_def st_error_def split: outcome.splits)
  have n: "?r \<noteq> (False, st_error ''Invalid Telegram chat ID format'' w)"
    if t: "validate_telegram_token token"
  proof
    assume "?r = (False, st_error ''Invalid Telegram chat ID format'' w)"
    then have "posted (snd ?r) = posted w" by (simp add: st_error_def)
    with p [OF t] show False by simp
  qed
  from v p n show ?thesis by blast
qed

theorem minus_chat_id_accepted_witness:
  "validate_chat_id ''-abc'' \<and> validate_chat_id ''-''
   \<and> validate_telegram_token ''123:AbC-1_2''
   \<and> posted (snd (send_to_telegram (answering TimeoutExc) [] ''123:AbC-1_2'' ''-abc'' quiet_world))
        = [\<lparr> req_url = ''https://api.telegram.org/bot123:AbC-1_2/sendMessage'',
             req_chat_id = ''-abc'', req_text = [], req_parse_mode = ''Markdown'',
             req_timeout = 10 \<rparr>]"
proof -
  have t: "validate_telegram_token ''123:AbC-1_2''" by code_simp
  have a: "validate_chat_id ''-abc''"
    using minus_chat_id_accepted [of "''abc''" "''123:AbC-1_2''" "answering TimeoutExc" "[]" quiet_world]
    by simp
  have b: "validate_chat_id ''-''"
    using minus_chat_id_accepted [of "[]" "''123:AbC-1_2''" "answering TimeoutExc" "[]" quiet_world]
    by simp
  have c: "posted (snd (send_to_telegram (answering TimeoutExc) [] ''123:AbC-1_2'' ''-abc'' quiet_world))
        = [\<lparr> req_url = ''https://api.telegram.org/bot123:AbC-1_2/sendMessage'',
             req_chat_id = ''-abc'', req_text = [], req_parse_mode = ''Markdown'',
             req_timeout = 10 \<rparr>]"
    using minus_chat_id_accepted [of "''abc''" "''123:AbC-1_2''" "answering TimeoutExc" "[]" quiet_world] t
    by (simp add: quiet_world_def)
  from t a b c show ?thesis by simp
qed


end
